theory Spec2Isabelle
  imports Main
begin

section \<open>The XML element tree\<close>

text \<open>
  The binding layer of \<^verbatim>\<open>bgg/models/bgg.py\<close> reads an already parsed
  \<^verbatim>\<open>xml.etree.ElementTree.Element\<close>: a tag, the attribute dict, the text before the
  first child (\<^verbatim>\<open>None\<close> when there is none) and the list of direct children.
  The attribute dict is written as its list of items (keys distinct, looked up with
  \<open>map_of\<close>).
\<close>

datatype xml =
  Element (tag: string) (attrib: "(string \<times> string) list")
          (elem_text: "string option") (children: "xml list")

text \<open>
  The exceptions that leave the functions below. A \<^verbatim>\<open>ValidationError\<close> lists the fields
  at fault, each with what is wrong with it.
\<close>

datatype error_kind = Missing | TypeCoercion

datatype py_error =
    RecursionError
  | SyntaxError
  | TypeError string
  | AssertionError string
  | ValidationError "(string \<times> error_kind) list"

subsection \<open>Looking children up\<close>

text \<open>
  \<^verbatim>\<open>find\<close>, \<^verbatim>\<open>findtext\<close> and \<^verbatim>\<open>findall\<close> take a path. A plain name, here a non-empty
  string of ASCII letters, digits, \<^verbatim>\<open>_\<close> and \<^verbatim>\<open>-\<close>, is compared with the tags of the
  direct children: \<^verbatim>\<open>find\<close> returns the first child whose tag equals it, \<^verbatim>\<open>findtext\<close>
  the text of that child (the empty string when its text is \<^verbatim>\<open>None\<close>), \<^verbatim>\<open>findall\<close>
  every such child in document order. Any other string goes to \<^verbatim>\<open>ElementPath\<close>: the
  path \<^verbatim>\<open>*\<close> selects all direct children; what the remaining paths select, or the
  \<^verbatim>\<open>SyntaxError\<close> they raise, is the parameter \<open>element_path\<close>, which stands for
  \<^verbatim>\<open>ElementPath.iterfind\<close> of the standard library. \<^verbatim>\<open>get\<close> is \<^verbatim>\<open>attrib.get\<close> and
  takes the key as it is.
\<close>

type_synonym path_selector = "xml \<Rightarrow> string \<Rightarrow> py_error + xml list"

definition plain_char :: "char \<Rightarrow> bool" where
  "plain_char c =
     (let n = (of_char c :: nat)
      in (65 \<le> n \<and> n \<le> 90) \<or> (97 \<le> n \<and> n \<le> 122) \<or> (48 \<le> n \<and> n \<le> 57) \<or> n = 95 \<or> n = 45)"

definition plain_tag :: "string \<Rightarrow> bool" where
  "plain_tag t = (t \<noteq> [] \<and> list_all plain_char t)"

definition elem_get :: "xml \<Rightarrow> string \<Rightarrow> string option" where
  "elem_get e key = map_of (attrib e) key"

fun find_loop :: "xml list \<Rightarrow> string \<Rightarrow> xml option" where
  "find_loop [] t = None"
| "find_loop (c # cs) t = (if tag c = t then Some c else find_loop cs t)"

fun findall_loop :: "xml list \<Rightarrow> string \<Rightarrow> xml list \<Rightarrow> xml list" where
  "findall_loop [] t out = out"
| "findall_loop (c # cs) t out =
     findall_loop cs t (if tag c = t then out @ [c] else out)"

definition iterfind :: "path_selector \<Rightarrow> xml \<Rightarrow> string \<Rightarrow> py_error + xml list" where
  "iterfind element_path e path =
     (if path = ''*'' then Inr (children e) else element_path e path)"

definition elem_find :: "path_selector \<Rightarrow> xml \<Rightarrow> string \<Rightarrow> py_error + xml option" where
  "elem_find element_path e path =
     (if plain_tag path then Inr (find_loop (children e) path)
      else (case iterfind element_path e path of
              Inl err \<Rightarrow> Inl err
            | Inr selected \<Rightarrow> Inr (case selected of [] \<Rightarrow> None | c # rest \<Rightarrow> Some c)))"

definition elem_findtext :: "path_selector \<Rightarrow> xml \<Rightarrow> string \<Rightarrow> py_error + string option" where
  "elem_findtext element_path e path =
     (case elem_find element_path e path of
        Inl err \<Rightarrow> Inl err
      | Inr None \<Rightarrow> Inr None
      | Inr (Some c) \<Rightarrow> Inr (Some (case elem_text c of None \<Rightarrow> [] | Some s \<Rightarrow> s)))"

definition elem_findall :: "path_selector \<Rightarrow> xml \<Rightarrow> string \<Rightarrow> py_error + xml list" where
  "elem_findall element_path e path =
     (if plain_tag path then Inr (findall_loop (children e) path [])
      else iterfind element_path e path)"

subsection \<open>Python's \<^verbatim>\<open>str.strip()\<close>\<close>

text \<open>
  \<^verbatim>\<open>strip()\<close> without argument removes leading and trailing whitespace; among the code
  points a \<^typ>\<open>char\<close> holds, \<^verbatim>\<open>str.isspace\<close> is true of 9 to 13, 28 to 32, 133 and 160.
\<close>

definition isspace :: "char \<Rightarrow> bool" where
  "isspace c = ((of_char c :: nat) \<in> {9, 10, 11, 12, 13, 28, 29, 30, 31, 32, 133, 160})"

definition strip :: "string \<Rightarrow> string" where
  "strip s = rev (dropWhile isspace (rev (dropWhile isspace s)))"

section \<open>Lookup strategies\<close>

datatype XMLLookupStrategy = ATTRIBUTE | TEXT | FIND | FINDALL | AUTO

text \<open>
  What \<^verbatim>\<open>_get_xml_value\<close> returns when it is not \<^verbatim>\<open>None\<close>: a string, one element or a
  list of elements. An exception of a lookup leaves \<^verbatim>\<open>_get_xml_value\<close> as it is.
\<close>

datatype xml_value = Str string | Elem xml | Elems "xml list"

fun get_xml_value ::
  "path_selector \<Rightarrow> xml \<Rightarrow> string \<Rightarrow> XMLLookupStrategy \<Rightarrow> py_error + xml_value option" where
  "get_xml_value paths xml_elem t ATTRIBUTE = Inr (map_option Str (elem_get xml_elem t))"
| "get_xml_value paths xml_elem t TEXT =
     (case elem_findtext paths xml_elem t of
        Inl err \<Rightarrow> Inl err
      | Inr found \<Rightarrow> Inr (map_option Str found))"
| "get_xml_value paths xml_elem t FIND =
     (case elem_find paths xml_elem t of
        Inl err \<Rightarrow> Inl err
      | Inr None \<Rightarrow> Inr None
      | Inr (Some elem) \<Rightarrow>
          Inr (case map_of (attrib elem) ''value'' of
                 Some v \<Rightarrow> Some (Str v)
               | None \<Rightarrow> map_option Str (elem_text elem)))"
| "get_xml_value paths xml_elem t FINDALL =
     (case elem_findall paths xml_elem t of
        Inl err \<Rightarrow> Inl err
      | Inr elements \<Rightarrow> Inr (if elements \<noteq> [] then Some (Elems elements) else None))"
| "get_xml_value paths xml_elem t AUTO =
     (case elem_get xml_elem t of
        Some a \<Rightarrow> Inr (Some (Str a))
      | None \<Rightarrow>
          (case elem_find paths xml_elem t of
             Inl err \<Rightarrow> Inl err
           | Inr (Some elem) \<Rightarrow>
               Inr (case map_of (attrib elem) ''value'' of
                      Some v \<Rightarrow> Some (Str v)
                    | None \<Rightarrow>
                        (case elem_text elem of
                           None \<Rightarrow> Some (Elem elem)
                         | Some s \<Rightarrow>
                             if s \<noteq> [] \<and> strip s \<noteq> [] then Some (Str (strip s))
                             else Some (Elem elem)))
           | Inr None \<Rightarrow>
               (case elem_findtext paths xml_elem t of
                  Inl err \<Rightarrow> Inl err
                | Inr (Some s) \<Rightarrow> Inr (if strip s \<noteq> [] then Some (Str (strip s)) else None)
                | Inr None \<Rightarrow>
                    (case elem_findall paths xml_elem t of
                       Inl err \<Rightarrow> Inl err
                     | Inr elements \<Rightarrow>
                         Inr (if elements \<noteq> [] then Some (Elems elements) else None)))))"

text \<open>The Auto branch of \<^verbatim>\<open>_get_xml_value\<close> with its \<^verbatim>\<open>findtext\<close> step taken out.\<close>

definition auto_without_findtext ::
  "path_selector \<Rightarrow> xml \<Rightarrow> string \<Rightarrow> py_error + xml_value option" where
  "auto_without_findtext paths xml_elem t =
     (case elem_get xml_elem t of
        Some a \<Rightarrow> Inr (Some (Str a))
      | None \<Rightarrow>
          (case elem_find paths xml_elem t of
             Inl err \<Rightarrow> Inl err
           | Inr (Some elem) \<Rightarrow>
               Inr (case map_of (attrib elem) ''value'' of
                      Some v \<Rightarrow> Some (Str v)
                    | None \<Rightarrow>
                        (case elem_text elem of
                           None \<Rightarrow> Some (Elem elem)
                         | Some s \<Rightarrow>
                             if s \<noteq> [] \<and> strip s \<noteq> [] then Some (Str (strip s))
                             else Some (Elem elem)))
           | Inr None \<Rightarrow>
               (case elem_findall paths xml_elem t of
                  Inl err \<Rightarrow> Inl err
                | Inr elements \<Rightarrow>
                    Inr (if elements \<noteq> [] then Some (Elems elements) else None))))"

subsection \<open>The strategies in the specification's words\<close>

text \<open>
  A second description, written from the specification and from nothing above: the
  attribute of that name on the element; the first direct child of that name; all direct
  children of that name. Auto is four independent attempts, (1) the attribute, (2) the
  first child with its \<^verbatim>\<open>value\<close> attribute preferred, else its trimmed non-empty text,
  else the child itself, (3) the trimmed text of the first child with the empty string as
  absent, (4) all children of that name when there is one; the first attempt that is not
  absent is the result.
\<close>

definition spec_attribute :: "xml \<Rightarrow> string \<Rightarrow> string option" where
  "spec_attribute e name =
     (case filter (\<lambda>kv. fst kv = name) (attrib e) of [] \<Rightarrow> None | kv # rest \<Rightarrow> Some (snd kv))"

definition spec_children_named :: "xml \<Rightarrow> string \<Rightarrow> xml list" where
  "spec_children_named e name = filter (\<lambda>c. tag c = name) (children e)"

definition spec_first_child :: "xml \<Rightarrow> string \<Rightarrow> xml option" where
  "spec_first_child e name =
     (case spec_children_named e name of [] \<Rightarrow> None | c # rest \<Rightarrow> Some c)"

definition spec_trimmed_text :: "xml \<Rightarrow> string" where
  "spec_trimmed_text c = (case elem_text c of None \<Rightarrow> [] | Some s \<Rightarrow> strip s)"

definition auto_step_attribute :: "xml \<Rightarrow> string \<Rightarrow> xml_value option" where
  "auto_step_attribute e t = map_option Str (spec_attribute e t)"

definition auto_step_find :: "xml \<Rightarrow> string \<Rightarrow> xml_value option" where
  "auto_step_find e t =
     (case spec_first_child e t of
        None \<Rightarrow> None
      | Some c \<Rightarrow>
          (case spec_attribute c ''value'' of
             Some v \<Rightarrow> Some (Str v)
           | None \<Rightarrow>
               if spec_trimmed_text c \<noteq> [] then Some (Str (spec_trimmed_text c))
               else Some (Elem c)))"

definition auto_step_text :: "xml \<Rightarrow> string \<Rightarrow> xml_value option" where
  "auto_step_text e t =
     (case spec_first_child e t of
        None \<Rightarrow> None
      | Some c \<Rightarrow> if spec_trimmed_text c = [] then None else Some (Str (spec_trimmed_text c)))"

definition auto_step_findall :: "xml \<Rightarrow> string \<Rightarrow> xml_value option" where
  "auto_step_findall e t =
     (if spec_children_named e t = [] then None else Some (Elems (spec_children_named e t)))"

fun first_present :: "'a option list \<Rightarrow> 'a option" where
  "first_present [] = None"
| "first_present (None # rest) = first_present rest"
| "first_present (Some v # rest) = Some v"

definition auto_chain_spec :: "xml \<Rightarrow> string \<Rightarrow> xml_value option" where
  "auto_chain_spec e t =
     first_present
       [auto_step_attribute e t, auto_step_find e t, auto_step_text e t, auto_step_findall e t]"

section \<open>Field metadata\<close>

text \<open>
  Plain Python data, as \<^verbatim>\<open>json_schema_extra\<close> holds it: \<^verbatim>\<open>None\<close>, booleans, integers,
  strings, lists and dicts with string keys (floats are left out).
\<close>

datatype pyobj =
    PyNone
  | PyBool bool
  | PyInt int
  | PyStr string
  | PyList "pyobj list"
  | PyDict "(string \<times> pyobj) list"

text \<open>
  \<^verbatim>\<open>JsonValue.validate_plain_value\<close>, the \<^verbatim>\<open>before\<close> validator of \<^verbatim>\<open>JsonValue\<close>. It ends
  in \<^verbatim>\<open>cls(**data_dict)\<close>, and constructing the instance validates the keyword dict, which
  runs this validator again on that dict; a dict matches none of the first three cases, so
  the next round is \<^verbatim>\<open>cls()\<close>, and so on. \<open>depth\<close> is the number of nested calls the
  interpreter still allows; when none is left the call raises \<^verbatim>\<open>RecursionError\<close>.
  A list validates its items first, one call deeper.
\<close>

fun validate_plain_value :: "nat \<Rightarrow> pyobj \<Rightarrow> py_error + pyobj"
  and validate_items :: "nat \<Rightarrow> pyobj list \<Rightarrow> py_error + pyobj list" where
  "validate_plain_value 0 data = Inl RecursionError"
| "validate_plain_value (Suc depth) (PyList items) =
     (case validate_items depth items of
        Inl err \<Rightarrow> Inl err
      | Inr validated \<Rightarrow> validate_plain_value depth (PyDict [(''value'', PyList validated)]))"
| "validate_plain_value (Suc depth) (PyDict d) = validate_plain_value depth (PyDict [])"
| "validate_plain_value (Suc depth) PyNone =
     validate_plain_value depth (PyDict [(''value'', PyNone)])"
| "validate_plain_value (Suc depth) (PyBool b) =
     validate_plain_value depth (PyDict [(''value'', PyBool b)])"
| "validate_plain_value (Suc depth) (PyInt i) =
     validate_plain_value depth (PyDict [(''value'', PyInt i)])"
| "validate_plain_value (Suc depth) (PyStr s) =
     validate_plain_value depth (PyDict [(''value'', PyStr s)])"
| "validate_items depth [] = Inr []"
| "validate_items depth (item # items) =
     (case validate_plain_value depth item of
        Inl err \<Rightarrow> Inl err
      | Inr v \<Rightarrow>
          (case validate_items depth items of
             Inl err \<Rightarrow> Inl err
           | Inr vs \<Rightarrow> Inr (v # vs)))"

text \<open>
  \<^verbatim>\<open>JsonDict.model_validate\<close> on a dict. \<^verbatim>\<open>JsonDict\<close> is \<^verbatim>\<open>SimpleDict[str, JsonValue]\<close>:
  validating the dict validates each of its values as a \<^verbatim>\<open>JsonValue\<close>, in order, and the
  first exception leaves the call.
\<close>

fun JsonDict_model_validate ::
  "nat \<Rightarrow> (string \<times> pyobj) list \<Rightarrow> py_error + (string \<times> pyobj) list" where
  "JsonDict_model_validate depth [] = Inr []"
| "JsonDict_model_validate depth ((k, v) # rest) =
     (case validate_plain_value depth v of
        Inl err \<Rightarrow> Inl err
      | Inr validated \<Rightarrow>
          (case JsonDict_model_validate depth rest of
             Inl err \<Rightarrow> Inl err
           | Inr others \<Rightarrow> Inr ((k, validated) # others)))"

section \<open>Field descriptors and the binder\<close>

text \<open>
  One entry of \<^verbatim>\<open>cls.model_fields\<close>: the declared name, the alias (set by the alias
  generator or by hand), \<^verbatim>\<open>json_schema_extra\<close> when it is a dict (\<open>None\<close> otherwise),
  the declared type and the default. The only default factory of the repository is
  \<^verbatim>\<open>lambda: dt.datetime.now(dt.UTC)\<close> (\<^verbatim>\<open>fetched_at\<close> of \<^verbatim>\<open>BGGGame\<close> and
  \<^verbatim>\<open>BGGCollection\<close>).
\<close>

datatype 'v default_spec = NoDefault | Default 'v | DefaultFactoryNow

record ('ty, 'v) field_info =
  field_name :: string
  field_alias :: "string option"
  json_schema_extra :: "(string \<times> pyobj) list option"
  annotation :: 'ty
  field_default :: "'v default_spec"

text \<open>
  What the binder takes from libraries and the interpreter: the selection of
  \<^verbatim>\<open>ElementPath\<close> for the paths not modelled above, \<^verbatim>\<open>str()\<close> on an object that is not
  a string, and the conversion of an extracted value to the declared type of a field.
\<close>

record ('ty, 'v) library =
  element_path :: path_selector
  py_str :: "pyobj \<Rightarrow> string"
  coerce :: "'ty \<Rightarrow> xml_value \<Rightarrow> 'v option"

text \<open>
  \<^verbatim>\<open>XMLLookupStrategy(x)\<close>: the member whose value is the string \<open>x\<close>; \<open>None\<close>
  stands for the \<^verbatim>\<open>ValueError\<close> of every other argument. The member
  \<^verbatim>\<open>XMLLookupStrategy.AUTO\<close> is the string \<^verbatim>\<open>auto\<close>.
\<close>

fun XMLLookupStrategy_call :: "pyobj \<Rightarrow> XMLLookupStrategy option" where
  "XMLLookupStrategy_call (PyStr tok) =
     (if tok = ''attribute'' then Some ATTRIBUTE
      else if tok = ''text'' then Some TEXT
      else if tok = ''find'' then Some FIND
      else if tok = ''findall'' then Some FINDALL
      else if tok = ''auto'' then Some AUTO
      else None)"
| "XMLLookupStrategy_call other = None"

text \<open>Truth value of an object, as \<^verbatim>\<open>or\<close> tests it.\<close>

fun py_truthy :: "pyobj \<Rightarrow> bool" where
  "py_truthy PyNone = False"
| "py_truthy (PyBool b) = b"
| "py_truthy (PyInt i) = (i \<noteq> 0)"
| "py_truthy (PyStr s) = (s \<noteq> [])"
| "py_truthy (PyList xs) = (xs \<noteq> [])"
| "py_truthy (PyDict d) = (d \<noteq> [])"

text \<open>
  Lines 115 to 124 of \<^verbatim>\<open>from_xml\<close>: the tag and the strategy token of a field. A
  \<^verbatim>\<open>json_schema_extra\<close> that is missing or empty is skipped; any other is validated by
  \<^verbatim>\<open>JsonDict.model_validate\<close>, outside every \<^verbatim>\<open>try\<close>, before it is read.
\<close>

definition read_extra ::
  "nat \<Rightarrow> ('ty, 'v) field_info \<Rightarrow> py_error + (pyobj option \<times> pyobj)" where
  "read_extra depth f =
     (case json_schema_extra f of
        None \<Rightarrow> Inr (None, PyStr ''auto'')
      | Some d \<Rightarrow>
          if d = [] then Inr (None, PyStr ''auto'')
          else (case JsonDict_model_validate depth d of
                  Inl err \<Rightarrow> Inl err
                | Inr extra \<Rightarrow>
                    Inr (map_of extra ''xml_tag'',
                         (case map_of extra ''xml_lookup_strategy'' of
                            None \<Rightarrow> PyStr ''auto''
                          | Some tok \<Rightarrow> tok))))"

text \<open>
  Lines 126 to 134: the \<^verbatim>\<open>ValueError\<close> of the enum is caught and replaced by Auto;
  \<^verbatim>\<open>xml_tag or alias or field_name\<close> is the first operand that is true, turned into a
  string when it is none.
\<close>

definition resolve_strategy :: "pyobj \<Rightarrow> XMLLookupStrategy" where
  "resolve_strategy lookup_strategy =
     (case XMLLookupStrategy_call lookup_strategy of Some s \<Rightarrow> s | None \<Rightarrow> AUTO)"

definition alias_or_name :: "('ty, 'v) field_info \<Rightarrow> string" where
  "alias_or_name f =
     (case field_alias f of
        Some a \<Rightarrow> if a \<noteq> [] then a else field_name f
      | None \<Rightarrow> field_name f)"

definition resolve_tag :: "(pyobj \<Rightarrow> string) \<Rightarrow> pyobj option \<Rightarrow> ('ty, 'v) field_info \<Rightarrow> string" where
  "resolve_tag to_str xml_tag f =
     (case xml_tag of
        None \<Rightarrow> alias_or_name f
      | Some x \<Rightarrow>
          if py_truthy x then (case x of PyStr s \<Rightarrow> s | _ \<Rightarrow> to_str x)
          else alias_or_name f)"

text \<open>
  The body of the loop over the fields: the state is \<^verbatim>\<open>full_dict\<close> and the warnings
  logged so far. An exception of the metadata or of the lookup leaves \<^verbatim>\<open>from_xml\<close>.
\<close>

type_synonym bind_state = "(string \<rightharpoonup> xml_value) \<times> string list"

definition missing_field_warning :: "string \<Rightarrow> string \<Rightarrow> string" where
  "missing_field_warning t elem_tag =
     ''Missing field '' @ [CHR 0x27] @ t @ [CHR 0x27] @ '' in XML element '' @ elem_tag"

definition bind_field ::
  "('ty, 'v) library \<Rightarrow> nat \<Rightarrow> xml \<Rightarrow> ('ty, 'v) field_info \<Rightarrow> bind_state \<Rightarrow> py_error + bind_state"
  where
  "bind_field lib depth xml_elem f st =
     (case read_extra depth f of
        Inl err \<Rightarrow> Inl err
      | Inr (xml_tag, token) \<Rightarrow>
          (let lookup_strategy = resolve_strategy token;
               t = resolve_tag (py_str lib) xml_tag f
           in case get_xml_value (element_path lib) xml_elem t lookup_strategy of
                Inl err \<Rightarrow> Inl err
              | Inr (Some v) \<Rightarrow> Inr ((fst st)(t \<mapsto> v), snd st)
              | Inr None \<Rightarrow>
                  if lookup_strategy \<noteq> AUTO
                  then Inr (fst st, snd st @ [missing_field_warning t (tag xml_elem)])
                  else Inr st))"

fun from_xml_loop ::
  "('ty, 'v) library \<Rightarrow> nat \<Rightarrow> xml \<Rightarrow> ('ty, 'v) field_info list \<Rightarrow> bind_state
   \<Rightarrow> py_error + bind_state" where
  "from_xml_loop lib depth xml_elem [] st = Inr st"
| "from_xml_loop lib depth xml_elem (f # fs) st =
     (case bind_field lib depth xml_elem f st of
        Inl err \<Rightarrow> Inl err
      | Inr st' \<Rightarrow> from_xml_loop lib depth xml_elem fs st')"

subsection \<open>Record construction\<close>

text \<open>
  Modelled from the spec: the record construction step, \<^verbatim>\<open>cls.model_validate\<close>, which
  the models inherit through attrmagic's \<^verbatim>\<open>ClassBase\<close> and is not under src/. It
  "applies defaults and raises a typed validation failure if a required field is missing or
  fails type coercion". Each field is read from the value map under its external name (the
  alias, else the declared name); a value found there is converted to the declared type by
  \<open>convert\<close>, a parameter, and an absent one is replaced by the default, the reading
  \<open>now\<close> of the clock for the default factory; a field with neither is reported missing.
  The failure lists the fields at fault, in schema order.
\<close>

definition validation_key :: "('ty, 'v) field_info \<Rightarrow> string" where
  "validation_key f = (case field_alias f of Some a \<Rightarrow> a | None \<Rightarrow> field_name f)"

text \<open>
  Modelled from the spec: one field of the construction step, read under its external name,
  converted, defaulted or reported missing.
\<close>

definition validate_field ::
  "('ty \<Rightarrow> xml_value \<Rightarrow> 'v option) \<Rightarrow> 'v \<Rightarrow> (string \<rightharpoonup> xml_value) \<Rightarrow> ('ty, 'v) field_info
   \<Rightarrow> error_kind + 'v" where
  "validate_field convert now d f =
     (case d (validation_key f) of
        Some raw \<Rightarrow>
          (case convert (annotation f) raw of
             Some v \<Rightarrow> Inr v
           | None \<Rightarrow> Inl TypeCoercion)
      | None \<Rightarrow>
          (case field_default f of
             NoDefault \<Rightarrow> Inl Missing
           | Default v \<Rightarrow> Inr v
           | DefaultFactoryNow \<Rightarrow> Inr now))"

text \<open>
  Modelled from the spec: the construction step over the fields in schema order, collecting
  the failures and the validated values.
\<close>

fun validate_fields ::
  "('ty \<Rightarrow> xml_value \<Rightarrow> 'v option) \<Rightarrow> 'v \<Rightarrow> (string \<rightharpoonup> xml_value) \<Rightarrow> ('ty, 'v) field_info list
   \<Rightarrow> (string \<times> error_kind) list \<times> (string \<times> 'v) list" where
  "validate_fields convert now d [] = ([], [])"
| "validate_fields convert now d (f # fs) =
     (case validate_field convert now d f of
        Inl k \<Rightarrow> ((validation_key f, k) # fst (validate_fields convert now d fs),
                  snd (validate_fields convert now d fs))
      | Inr v \<Rightarrow> (fst (validate_fields convert now d fs),
                  (field_name f, v) # snd (validate_fields convert now d fs)))"

text \<open>
  Modelled from the spec: \<^verbatim>\<open>model_validate\<close> returns the record when no field failed and
  raises the collected failures otherwise.
\<close>

definition model_validate ::
  "('ty \<Rightarrow> xml_value \<Rightarrow> 'v option) \<Rightarrow> 'v \<Rightarrow> ('ty, 'v) field_info list \<Rightarrow> (string \<rightharpoonup> xml_value)
   \<Rightarrow> py_error + (string \<times> 'v) list" where
  "model_validate convert now model_fields d =
     (if fst (validate_fields convert now d model_fields) = []
      then Inr (snd (validate_fields convert now d model_fields))
      else Inl (ValidationError (fst (validate_fields convert now d model_fields))))"

text \<open>
  \<^verbatim>\<open>from_xml\<close>: the loop, then the construction of the record from \<^verbatim>\<open>full_dict\<close>.
\<close>

definition from_xml ::
  "('ty, 'v) library \<Rightarrow> nat \<Rightarrow> 'v \<Rightarrow> ('ty, 'v) field_info list \<Rightarrow> xml
   \<Rightarrow> py_error + (string \<times> 'v) list" where
  "from_xml lib depth now model_fields xml_elem =
     (case from_xml_loop lib depth xml_elem model_fields (Map.empty, []) of
        Inl err \<Rightarrow> Inl err
      | Inr st \<Rightarrow> model_validate (coerce lib) now model_fields (fst st))"

subsection \<open>Lists of records\<close>

text \<open>
  \<^verbatim>\<open>BGGBaseList.base_cls\<close> reads \<^verbatim>\<open>cls.__pydantic_core_schema__\<close>: its entry
  \<^verbatim>\<open>schema\<close>, there the entry \<^verbatim>\<open>items_schema\<close>, which must not be a list, and there the
  entry \<^verbatim>\<open>cls\<close>, the class of the elements, here its \<^verbatim>\<open>model_fields\<close>. A list class is
  its name and its core schema as far as \<^verbatim>\<open>base_cls\<close> reads it.
\<close>

datatype 'c items_schema = ItemsSchemaList | ItemsSchemaDict (cls_entry: "'c option")

datatype 'c inner_schema = InnerSchema (items_schema_entry: "'c items_schema option")

datatype 'c core_schema = CoreSchema (schema_entry: "'c inner_schema option")

record 'c list_class =
  cls_name :: string
  pydantic_core_schema :: "'c core_schema"

definition base_cls :: "'c list_class \<Rightarrow> py_error + 'c" where
  "base_cls lc =
     (case schema_entry (pydantic_core_schema lc) of
        None \<Rightarrow> Inl (TypeError (''Schema not found for '' @ cls_name lc))
      | Some sch \<Rightarrow>
          (case items_schema_entry sch of
             None \<Rightarrow> Inl (TypeError (''Items schema not found for '' @ cls_name lc))
           | Some ItemsSchemaList \<Rightarrow> Inl (AssertionError ''Items schema should not be a list.'')
           | Some (ItemsSchemaDict entry) \<Rightarrow>
               (case entry of
                  None \<Rightarrow> Inl (TypeError (''Base class not found for '' @ cls_name lc))
                | Some base \<Rightarrow> Inr base)))"

text \<open>
  \<^verbatim>\<open>cls.base_cls().from_xml(item)\<close>, the expression of the comprehension in
  \<^verbatim>\<open>validate_xml\<close>, and the comprehension itself on a list, evaluated from the left: the
  exception of an item leaves it at once.
\<close>

definition bind_item ::
  "('ty, 'v) library \<Rightarrow> nat \<Rightarrow> 'v \<Rightarrow> ('ty, 'v) field_info list list_class \<Rightarrow> xml
   \<Rightarrow> py_error + (string \<times> 'v) list" where
  "bind_item lib depth now lc item =
     (case base_cls lc of
        Inl err \<Rightarrow> Inl err
      | Inr base \<Rightarrow> from_xml lib depth now base item)"

fun validate_xml ::
  "('ty, 'v) library \<Rightarrow> nat \<Rightarrow> 'v \<Rightarrow> ('ty, 'v) field_info list list_class \<Rightarrow> xml list
   \<Rightarrow> py_error + (string \<times> 'v) list list" where
  "validate_xml lib depth now lc [] = Inr []"
| "validate_xml lib depth now lc (item # data) =
     (case bind_item lib depth now lc item of
        Inl err \<Rightarrow> Inl err
      | Inr r \<Rightarrow>
          (case validate_xml lib depth now lc data of
             Inl err \<Rightarrow> Inl err
           | Inr rs \<Rightarrow> Inr (r # rs)))"

subsection \<open>Schemas used in the examples\<close>

text \<open>
  Values of validated fields in the examples, and the conversion of a field typed
  \<^verbatim>\<open>str\<close> or \<^verbatim>\<open>str | None\<close>: a string passes unchanged, an element or a list of elements
  is refused. No example looks up a path other than a plain name or \<^verbatim>\<open>*\<close>, and none
  turns a tag into a string, so these two entries of the library are left open.
\<close>

datatype field_value = NoneValue | StrValue string | DatetimeValue nat

definition str_field :: "unit \<Rightarrow> xml_value \<Rightarrow> field_value option" where
  "str_field ty raw = (case raw of Str s \<Rightarrow> Some (StrValue s) | _ \<Rightarrow> None)"

definition example_library :: "(unit, field_value) library" where
  "example_library = \<lparr>element_path = undefined, py_str = undefined, coerce = str_field\<rparr>"




text \<open>
  A field declared with
  \<^verbatim>\<open>Field(json_schema_extra={"xml_lookup_strategy": token}, default=...)\<close>.
\<close>

definition strategy_field ::
  "string \<Rightarrow> string \<Rightarrow> string \<Rightarrow> field_value default_spec \<Rightarrow> (unit, field_value) field_info"
  where
  "strategy_field name al token dflt =
     \<lparr>field_name = name, field_alias = Some al,
      json_schema_extra = Some [(''xml_lookup_strategy'', PyStr token)],
      annotation = (), field_default = dflt\<rparr>"

text \<open>
  A list class of the repository as \<^verbatim>\<open>base_cls\<close> finds it: the entry \<^verbatim>\<open>schema\<close> of its
  core schema is there and holds no entry \<^verbatim>\<open>items_schema\<close>.
\<close>

definition repository_list_class :: "string \<Rightarrow> (unit, field_value) field_info list list_class" where
  "repository_list_class name =
     \<lparr>cls_name = name, pydantic_core_schema = CoreSchema (Some (InnerSchema None))\<rparr>"

section \<open>Facts about the child lookups\<close>

lemma find_loop_none: "(find_loop cs t = None) = (\<forall>c \<in> set cs. tag c \<noteq> t)"
  by (induction cs) auto

lemma find_loop_first:
  "\<forall>x \<in> set pre. tag x \<noteq> t \<Longrightarrow> tag c = t \<Longrightarrow> find_loop (pre @ c # post) t = Some c"
  by (induction pre) auto

lemma find_loop_filter:
  "find_loop cs t = (case filter (\<lambda>c. tag c = t) cs of [] \<Rightarrow> None | c # rest \<Rightarrow> Some c)"
  by (induction cs) auto

lemma findall_loop_filter: "findall_loop cs t out = out @ filter (\<lambda>c. tag c = t) cs"
  by (induction cs arbitrary: out) auto

lemma elem_find_plain:
  "plain_tag t \<Longrightarrow> elem_find paths e t = Inr (find_loop (children e) t)"
  by (simp add: elem_find_def)

lemma elem_findall_plain:
  "plain_tag t \<Longrightarrow> elem_findall paths e t = Inr (filter (\<lambda>c. tag c = t) (children e))"
  by (simp add: elem_findall_def findall_loop_filter)

lemma elem_findtext_plain:
  "plain_tag t \<Longrightarrow>
   elem_findtext paths e t =
     Inr (case find_loop (children e) t of
            None \<Rightarrow> None
          | Some c \<Rightarrow> Some (case elem_text c of None \<Rightarrow> [] | Some s \<Rightarrow> s))"
  by (simp add: elem_findtext_def elem_find_plain split: option.splits)

lemma elem_find_of_findall:
  "elem_find paths e t =
     (case elem_findall paths e t of
        Inl err \<Rightarrow> Inl err
      | Inr selected \<Rightarrow> Inr (case selected of [] \<Rightarrow> None | c # rest \<Rightarrow> Some c))"
  by (simp add: elem_find_def elem_findall_def findall_loop_filter find_loop_filter)

lemma spec_attribute_get: "spec_attribute e t = elem_get e t"
proof -
  have "(case filter (\<lambda>kv. fst kv = t) kvs of [] \<Rightarrow> None | kv # rest \<Rightarrow> Some (snd kv)) =
      map_of kvs t" for kvs :: "(string \<times> string) list"
    by (induction kvs) auto
  then show ?thesis
    by (simp add: spec_attribute_def elem_get_def)
qed

lemma spec_first_child_find: "spec_first_child e t = find_loop (children e) t"
  by (simp add: spec_first_child_def spec_children_named_def find_loop_filter)

lemma plain_tag_not_star: "\<not> plain_tag ''*''"
  by (simp add: plain_tag_def plain_char_def)

section \<open>The Find strategy\<close>

text \<open>
  Against C8 as stated. The tag is handed to \<^verbatim>\<open>Element.find\<close>, which reads it as a
  path: for \<^verbatim>\<open>*\<close> it returns the first child, whatever its name. The element below has
  no child named \<^verbatim>\<open>*\<close>, and Find on \<^verbatim>\<open>*\<close> yields the text of its first child.
\<close>

theorem find_strategy_star_counterexample:
  "map tag (children (Element ''item'' [] None
       [Element ''a'' [] (Some ''1'') [], Element ''b'' [] (Some ''2'') []])) = [''a'', ''b''] \<and>
   get_xml_value undefined
     (Element ''item'' [] None
        [Element ''a'' [] (Some ''1'') [], Element ''b'' [] (Some ''2'') []])
     ''*'' FIND = Inr (Some (Str ''1''))"
  by (simp add: elem_find_def iterfind_def plain_tag_not_star)

text \<open>
  C8, for plain tag names. Under the Find strategy the first direct child named by the
  tag decides the result: its \<^verbatim>\<open>value\<close> attribute when it has one, otherwise its text;
  with no child of that name the result is absent.
\<close>

theorem find_strategy_first_child:
  "plain_tag t \<longrightarrow>
   ((\<forall>x \<in> set (children e). tag x \<noteq> t) \<longrightarrow> get_xml_value paths e t FIND = Inr None) \<and>
   (children e = pre @ c # post \<and> (\<forall>x \<in> set pre. tag x \<noteq> t) \<and> tag c = t \<longrightarrow>
      get_xml_value paths e t FIND =
        Inr (case map_of (attrib c) ''value'' of
               Some v \<Rightarrow> Some (Str v)
             | None \<Rightarrow> map_option Str (elem_text c)))"
proof (intro impI conjI)
  assume plain: "plain_tag t" and none: "\<forall>x \<in> set (children e). tag x \<noteq> t"
  then have "find_loop (children e) t = None"
    by (simp add: find_loop_none)
  with plain show "get_xml_value paths e t FIND = Inr None"
    by (simp add: elem_find_plain)
next
  assume plain: "plain_tag t"
    and first: "children e = pre @ c # post \<and> (\<forall>x \<in> set pre. tag x \<noteq> t) \<and> tag c = t"
  then have "find_loop (children e) t = Some c"
    by (simp add: find_loop_first)
  with plain show "get_xml_value paths e t FIND =
      Inr (case map_of (attrib c) ''value'' of
             Some v \<Rightarrow> Some (Str v)
           | None \<Rightarrow> map_option Str (elem_text c))"
    by (simp add: elem_find_plain)
qed

theorem find_strategy_first_child_witness:
  "plain_tag ''yearpublished'' \<and>
   get_xml_value undefined
     (Element ''item'' [] None
        [Element ''name'' [] None [],
         Element ''yearpublished'' [(''value'', ''2017'')] None [],
         Element ''yearpublished'' [(''value'', ''1999'')] None []])
     ''yearpublished'' FIND = Inr (Some (Str ''2017'')) \<and>
   get_xml_value undefined (Element ''item'' [] None [Element ''name'' [] None []])
     ''yearpublished'' FIND = Inr None"
proof -
  have plain: "plain_tag ''yearpublished''"
    by (simp add: plain_tag_def plain_char_def)
  from plain find_strategy_first_child
          [of "''yearpublished''"
              "Element ''item'' [] None
                 [Element ''name'' [] None [],
                  Element ''yearpublished'' [(''value'', ''2017'')] None [],
                  Element ''yearpublished'' [(''value'', ''1999'')] None []]"
              undefined "[Element ''name'' [] None []]"
              "Element ''yearpublished'' [(''value'', ''2017'')] None []"
              "[Element ''yearpublished'' [(''value'', ''1999'')] None []]"]
        find_strategy_first_child
          [of "''yearpublished''" "Element ''item'' [] None [Element ''name'' [] None []]"
              undefined]
  show ?thesis by simp
qed

section \<open>The FindAll strategy\<close>

text \<open>
  Against C9 as stated. \<^verbatim>\<open>Element.findall\<close> reads the tag as a path: for \<^verbatim>\<open>*\<close> it
  returns all children. The element below has no child named \<^verbatim>\<open>*\<close>, and FindAll on
  \<^verbatim>\<open>*\<close> yields both of its children.
\<close>

theorem findall_strategy_star_counterexample:
  "map tag (children (Element ''item'' [] None
       [Element ''link'' [] None [], Element ''name'' [] None []])) = [''link'', ''name''] \<and>
   get_xml_value undefined
     (Element ''item'' [] None [Element ''link'' [] None [], Element ''name'' [] None []])
     ''*'' FINDALL =
   Inr (Some (Elems [Element ''link'' [] None [], Element ''name'' [] None []]))"
  by (simp add: elem_findall_def iterfind_def plain_tag_not_star)

text \<open>
  C9, for plain tag names. Under the FindAll strategy the result is the list of all direct
  children named by the tag, in document order, whenever there is at least one, and absent
  when there is none.
\<close>

theorem findall_strategy_all_children:
  "plain_tag t \<longrightarrow>
   get_xml_value paths e t FINDALL =
     Inr (if \<exists>c \<in> set (children e). tag c = t
          then Some (Elems (filter (\<lambda>c. tag c = t) (children e)))
          else None)"
  by (auto simp: elem_findall_plain filter_empty_conv)

theorem findall_strategy_all_children_witness:
  "plain_tag ''link'' \<and>
   get_xml_value undefined
     (Element ''item'' [] None
        [Element ''link'' [(''id'', ''1'')] None [],
         Element ''name'' [] None [],
         Element ''link'' [(''id'', ''2'')] None [],
         Element ''link'' [(''id'', ''3'')] None []])
     ''link'' FINDALL =
     Inr (Some (Elems [Element ''link'' [(''id'', ''1'')] None [],
                       Element ''link'' [(''id'', ''2'')] None [],
                       Element ''link'' [(''id'', ''3'')] None []])) \<and>
   get_xml_value undefined (Element ''item'' [] None [Element ''name'' [] None []])
     ''link'' FINDALL = Inr None"
proof -
  have plain: "plain_tag ''link''"
    by (simp add: plain_tag_def plain_char_def)
  from plain findall_strategy_all_children
          [of "''link''"
              undefined
              "Element ''item'' [] None
                 [Element ''link'' [(''id'', ''1'')] None [],
                  Element ''name'' [] None [],
                  Element ''link'' [(''id'', ''2'')] None [],
                  Element ''link'' [(''id'', ''3'')] None []]"]
        findall_strategy_all_children
          [of "''link''" undefined "Element ''item'' [] None [Element ''name'' [] None []]"]
  show ?thesis by simp
qed

section \<open>The Text strategy and the text branch of Find\<close>

text \<open>
  Against C3 as stated. The Text strategy hands on what \<^verbatim>\<open>findtext\<close> returns and the text
  branch of Find hands on \<^verbatim>\<open>elem.text\<close>, neither trimmed: a child whose text is two
  spaces yields the two spaces under both, and a child without text yields the empty string
  under Text. And \<^verbatim>\<open>findtext\<close> reads the tag as a path: Text on \<^verbatim>\<open>*\<close> yields the text of
  the first child of an element that has no child of that name.
\<close>

theorem text_strategy_trimmed_counterexample:
  "strip ''  '' = [] \<and>
   get_xml_value undefined
     (Element ''item'' [] None [Element ''description'' [] (Some ''  '') []])
     ''description'' TEXT = Inr (Some (Str ''  '')) \<and>
   get_xml_value undefined
     (Element ''item'' [] None [Element ''description'' [] (Some ''  '') []])
     ''description'' FIND = Inr (Some (Str ''  '')) \<and>
   get_xml_value undefined
     (Element ''item'' [] None [Element ''description'' [] None []])
     ''description'' TEXT = Inr (Some (Str [])) \<and>
   get_xml_value undefined
     (Element ''item'' [] None [Element ''description'' [] (Some ''A game'') []])
     ''*'' TEXT = Inr (Some (Str ''A game''))"
  by (simp add: elem_findtext_def elem_find_def iterfind_def strip_def isspace_def
      plain_tag_def plain_char_def)

text \<open>
  C3, as the code has it, for plain tag names. Under the Text strategy the result is the
  text of the first direct child named by the tag exactly as stored, the empty string when
  that child has no text, and absent only when there is no such child; under Find, a first
  child without a \<^verbatim>\<open>value\<close> attribute yields its text exactly as stored, absent when it
  has none.
\<close>

theorem text_strategy_raw_text:
  "plain_tag t \<longrightarrow>
   ((\<forall>x \<in> set (children e). tag x \<noteq> t) \<longrightarrow> get_xml_value paths e t TEXT = Inr None) \<and>
   (children e = pre @ c # post \<and> (\<forall>x \<in> set pre. tag x \<noteq> t) \<and> tag c = t \<longrightarrow>
      get_xml_value paths e t TEXT =
        Inr (Some (Str (case elem_text c of None \<Rightarrow> [] | Some s \<Rightarrow> s))) \<and>
      (map_of (attrib c) ''value'' = None \<longrightarrow>
         get_xml_value paths e t FIND = Inr (map_option Str (elem_text c))))"
proof (intro impI conjI)
  assume plain: "plain_tag t" and none: "\<forall>x \<in> set (children e). tag x \<noteq> t"
  then have "find_loop (children e) t = None"
    by (simp add: find_loop_none)
  with plain show "get_xml_value paths e t TEXT = Inr None"
    by (simp add: elem_findtext_plain)
next
  assume plain: "plain_tag t"
    and first: "children e = pre @ c # post \<and> (\<forall>x \<in> set pre. tag x \<noteq> t) \<and> tag c = t"
  then have found: "find_loop (children e) t = Some c"
    by (simp add: find_loop_first)
  with plain show "get_xml_value paths e t TEXT =
      Inr (Some (Str (case elem_text c of None \<Rightarrow> [] | Some s \<Rightarrow> s)))"
    by (simp add: elem_findtext_plain)
  assume "map_of (attrib c) ''value'' = None"
  with plain found show "get_xml_value paths e t FIND = Inr (map_option Str (elem_text c))"
    by (simp add: elem_find_plain)
qed

theorem text_strategy_raw_text_witness:
  "plain_tag ''description'' \<and>
   get_xml_value undefined
     (Element ''item'' [] None
        [Element ''name'' [] None [], Element ''description'' [] (Some '' A game '') []])
     ''description'' TEXT = Inr (Some (Str '' A game '')) \<and>
   get_xml_value undefined
     (Element ''item'' [] None
        [Element ''name'' [] None [], Element ''description'' [] (Some '' A game '') []])
     ''description'' FIND = Inr (Some (Str '' A game '')) \<and>
   get_xml_value undefined (Element ''item'' [] None [Element ''name'' [] None []])
     ''description'' TEXT = Inr None"
proof -
  have plain: "plain_tag ''description''"
    by (simp add: plain_tag_def plain_char_def)
  from plain text_strategy_raw_text
          [of "''description''" "Element ''item'' [] None [Element ''name'' [] None []]"
              undefined]
        text_strategy_raw_text
          [of "''description''"
              "Element ''item'' [] None
                 [Element ''name'' [] None [], Element ''description'' [] (Some '' A game '') []]"
              undefined "[Element ''name'' [] None []]"
              "Element ''description'' [] (Some '' A game '') []" "[]"]
  show ?thesis by simp
qed

section \<open>The Auto strategy\<close>

text \<open>
  Against C1 as stated. Auto hands the tag to \<^verbatim>\<open>Element.find\<close>, which reads it as a
  path. The element below has no attribute and no child named \<^verbatim>\<open>*\<close>, so each of the
  four attempts of the specification is absent; the code returns the text of the first child.
\<close>

theorem auto_strategy_star_counterexample:
  "auto_chain_spec (Element ''item'' [] None [Element ''a'' [] (Some ''1'') []]) ''*'' = None \<and>
   get_xml_value undefined (Element ''item'' [] None [Element ''a'' [] (Some ''1'') []])
     ''*'' AUTO = Inr (Some (Str ''1''))"
  by (simp add: auto_chain_spec_def auto_step_attribute_def auto_step_find_def
      auto_step_text_def auto_step_findall_def spec_attribute_def spec_first_child_def
      spec_children_named_def elem_get_def elem_find_def iterfind_def plain_tag_not_star
      strip_def isspace_def)

text \<open>
  C1, for plain tag names. Auto returns the first result that is not absent among the
  attribute, the Find-style lookup, the trimmed text lookup and the FindAll lookup, tried in
  this order; and for every tag, an attribute of that name is returned whatever the children
  are.
\<close>

theorem auto_strategy_chain:
  "(plain_tag t \<longrightarrow> get_xml_value paths e t AUTO = Inr (auto_chain_spec e t)) \<and>
   (\<forall>a. spec_attribute e t = Some a \<longrightarrow> get_xml_value paths e t AUTO = Inr (Some (Str a)))"
proof (intro conjI impI allI)
  fix a assume "spec_attribute e t = Some a"
  then show "get_xml_value paths e t AUTO = Inr (Some (Str a))"
    by (simp add: spec_attribute_get)
next
  assume plain: "plain_tag t"
  show "get_xml_value paths e t AUTO = Inr (auto_chain_spec e t)"
  proof (cases "elem_get e t")
    case (Some a)
    then show ?thesis
      by (simp add: auto_chain_spec_def auto_step_attribute_def spec_attribute_get)
  next
    case no_attribute: None
    show ?thesis
    proof (cases "find_loop (children e) t")
      case None
      then have "filter (\<lambda>c. tag c = t) (children e) = []"
        by (simp add: find_loop_none filter_empty_conv)
      with None no_attribute plain show ?thesis
        by (simp add: auto_chain_spec_def auto_step_attribute_def auto_step_find_def
            auto_step_text_def auto_step_findall_def spec_attribute_get
            spec_first_child_find spec_children_named_def
            elem_find_plain elem_findtext_plain elem_findall_plain)
    next
      case (Some c)
      have value_attr: "spec_attribute c ''value'' = map_of (attrib c) ''value''"
        by (simp add: spec_attribute_get elem_get_def)
      have empty: "strip [] = []"
        by (simp add: strip_def)
      from Some no_attribute plain value_attr show ?thesis
        by (cases "map_of (attrib c) ''value''"; cases "elem_text c")
          (auto simp: auto_chain_spec_def auto_step_attribute_def auto_step_find_def
            spec_attribute_get spec_first_child_find spec_trimmed_text_def elem_find_plain
            empty)
    qed
  qed
qed

theorem auto_strategy_chain_witness:
  "plain_tag ''type'' \<and> plain_tag ''yearpublished'' \<and> plain_tag ''description'' \<and>
   get_xml_value undefined
     (Element ''item'' [(''type'', ''boardgame'')] None
        [Element ''type'' [] (Some ''other'') []])
     ''type'' AUTO = Inr (Some (Str ''boardgame'')) \<and>
   get_xml_value undefined
     (Element ''item'' [] None [Element ''yearpublished'' [(''value'', ''2017'')] None []])
     ''yearpublished'' AUTO = Inr (Some (Str ''2017'')) \<and>
   get_xml_value undefined
     (Element ''item'' [] None [Element ''description'' [] (Some '' A game '') []])
     ''description'' AUTO = Inr (Some (Str ''A game'')) \<and>
   get_xml_value undefined
     (Element ''item'' [] None [Element ''description'' [] (Some ''  '') []])
     ''description'' AUTO = Inr (Some (Elem (Element ''description'' [] (Some ''  '') []))) \<and>
   get_xml_value undefined (Element ''item'' [] None [Element ''name'' [] None []])
     ''description'' AUTO = Inr None"
proof -
  have plain: "plain_tag ''type''" "plain_tag ''yearpublished''" "plain_tag ''description''"
    by (simp_all add: plain_tag_def plain_char_def)
  have "get_xml_value undefined
     (Element ''item'' [(''type'', ''boardgame'')] None
        [Element ''type'' [] (Some ''other'') []])
     ''type'' AUTO = Inr (Some (Str ''boardgame''))"
    using auto_strategy_chain
            [of "''type''" undefined
                "Element ''item'' [(''type'', ''boardgame'')] None
                   [Element ''type'' [] (Some ''other'') []]"]
    by (simp add: spec_attribute_def)
  moreover have "get_xml_value undefined
     (Element ''item'' [] None [Element ''yearpublished'' [(''value'', ''2017'')] None []])
     ''yearpublished'' AUTO = Inr (Some (Str ''2017''))"
    using plain auto_strategy_chain
            [of "''yearpublished''" undefined
                "Element ''item'' [] None
                   [Element ''yearpublished'' [(''value'', ''2017'')] None []]"]
    by (simp add: auto_chain_spec_def auto_step_attribute_def auto_step_find_def
        spec_attribute_def spec_first_child_def spec_children_named_def)
  moreover have "get_xml_value undefined
     (Element ''item'' [] None [Element ''description'' [] (Some '' A game '') []])
     ''description'' AUTO = Inr (Some (Str ''A game''))"
    using plain auto_strategy_chain
            [of "''description''" undefined
                "Element ''item'' [] None [Element ''description'' [] (Some '' A game '') []]"]
    by (simp add: auto_chain_spec_def auto_step_attribute_def auto_step_find_def
        spec_attribute_def spec_first_child_def spec_children_named_def
        spec_trimmed_text_def strip_def isspace_def)
  moreover have "get_xml_value undefined
     (Element ''item'' [] None [Element ''description'' [] (Some ''  '') []])
     ''description'' AUTO = Inr (Some (Elem (Element ''description'' [] (Some ''  '') [])))"
    using plain auto_strategy_chain
            [of "''description''" undefined
                "Element ''item'' [] None [Element ''description'' [] (Some ''  '') []]"]
    by (simp add: auto_chain_spec_def auto_step_attribute_def auto_step_find_def
        spec_attribute_def spec_first_child_def spec_children_named_def
        spec_trimmed_text_def strip_def isspace_def)
  moreover have "get_xml_value undefined (Element ''item'' [] None [Element ''name'' [] None []])
     ''description'' AUTO = Inr None"
    using plain auto_strategy_chain
            [of "''description''" undefined
                "Element ''item'' [] None [Element ''name'' [] None []]"]
    by (simp add: auto_chain_spec_def auto_step_attribute_def auto_step_find_def
        auto_step_text_def auto_step_findall_def
        spec_attribute_def spec_first_child_def spec_children_named_def)
  ultimately show ?thesis
    using plain by simp
qed

text \<open>
  C10. Whenever \<^verbatim>\<open>findtext\<close> has a result, \<^verbatim>\<open>find\<close> has one too, so the third step of
  the Auto chain is never the one that answers: Auto equals the chain without it, for every
  tag, plain name or path.
\<close>

theorem auto_findtext_step_dead:
  "(\<forall>s. elem_findtext paths e t = Inr (Some s) \<longrightarrow> (\<exists>c. elem_find paths e t = Inr (Some c))) \<and>
   get_xml_value paths e t AUTO = auto_without_findtext paths e t"
  by (auto simp: auto_without_findtext_def elem_findtext_def split: option.splits sum.splits)

theorem auto_findtext_step_dead_witness:
  "elem_findtext undefined
     (Element ''item'' [] None [Element ''description'' [] (Some '' x '') []])
     ''description'' = Inr (Some '' x '') \<and>
   (\<exists>c. elem_find undefined
      (Element ''item'' [] None [Element ''description'' [] (Some '' x '') []])
      ''description'' = Inr (Some c)) \<and>
   get_xml_value undefined
     (Element ''item'' [] None [Element ''description'' [] (Some '' x '') []])
     ''description'' AUTO = Inr (Some (Str ''x'')) \<and>
   auto_without_findtext undefined
     (Element ''item'' [] None [Element ''description'' [] (Some '' x '') []])
     ''description'' = Inr (Some (Str ''x''))"
proof -
  have plain: "plain_tag ''description''"
    by (simp add: plain_tag_def plain_char_def)
  have found: "elem_findtext undefined
     (Element ''item'' [] None [Element ''description'' [] (Some '' x '') []])
     ''description'' = Inr (Some '' x '')"
    using plain by (simp add: elem_findtext_plain)
  have without: "auto_without_findtext undefined
     (Element ''item'' [] None [Element ''description'' [] (Some '' x '') []])
     ''description'' = Inr (Some (Str ''x''))"
    using plain
    by (simp add: auto_without_findtext_def elem_get_def elem_find_plain strip_def isspace_def)
  from auto_findtext_step_dead
         [of undefined "Element ''item'' [] None [Element ''description'' [] (Some '' x '') []]"
             "''description''"]
       found without
  show ?thesis by simp
qed

section \<open>Validating the metadata of a field\<close>

lemma validate_plain_value_raises: "validate_plain_value depth data = Inl RecursionError"
proof (induction depth arbitrary: data)
  case 0
  then show ?case by simp
next
  case (Suc depth)
  show ?case
  proof (cases data)
    case (PyList items)
    show ?thesis
    proof (cases items)
      case Nil
      with PyList Suc.IH show ?thesis by simp
    next
      case (Cons item rest)
      with PyList Suc.IH[of item] show ?thesis by simp
    qed
  qed (simp_all add: Suc.IH)
qed

lemma JsonDict_model_validate_raises:
  "d \<noteq> [] \<Longrightarrow> JsonDict_model_validate depth d = Inl RecursionError"
  by (cases d) (auto simp: validate_plain_value_raises)

lemma read_extra_raises:
  "json_schema_extra f = Some d \<Longrightarrow> d \<noteq> [] \<Longrightarrow> read_extra depth f = Inl RecursionError"
  by (simp add: read_extra_def JsonDict_model_validate_raises)



lemma bind_field_raises:
  "json_schema_extra f = Some d \<Longrightarrow> d \<noteq> [] \<Longrightarrow>
   bind_field lib depth xml_elem f st = Inl RecursionError"
  by (simp add: bind_field_def read_extra_raises)


lemma from_xml_loop_raises:
  "json_schema_extra f = Some d \<Longrightarrow> d \<noteq> [] \<Longrightarrow>
   from_xml_loop lib depth xml_elem (f # fs) st = Inl RecursionError"
  by (simp add: bind_field_raises)

section \<open>An unrecognized strategy token\<close>

text \<open>
  C7 at a field declared with the strategy token \<^verbatim>\<open>xpath\<close>. The enum lookup of lines
  126 to 129 would answer Auto for this token, but the bind does not get there: line 120
  validates the metadata first, that validation never returns, and \<^verbatim>\<open>from_xml\<close> raises
  \<^verbatim>\<open>RecursionError\<close> for every element, clock and recursion limit.
\<close>

theorem unrecognized_strategy_raises:
  "resolve_strategy (PyStr ''xpath'') = AUTO \<and>
   from_xml lib depth now
     [strategy_field ''year_published'' ''yearpublished'' ''xpath'' (Default NoneValue)]
     xml_elem = Inl RecursionError"
proof -
  have "from_xml_loop lib depth xml_elem
      [strategy_field ''year_published'' ''yearpublished'' ''xpath'' (Default NoneValue)]
      (Map.empty, []) = Inl RecursionError"
    by (rule from_xml_loop_raises[where d = "[(''xml_lookup_strategy'', PyStr ''xpath'')]"])
      (simp_all add: strategy_field_def)
  then show ?thesis
    by (simp add: from_xml_def resolve_strategy_def)
qed

section \<open>Missing fields and record construction\<close>

text \<open>
  C4 at the scenario of the specification: one field with the Attribute strategy, bound to
  an element without that attribute. With a default or without one, the bind ends in the
  loop over the fields, before any record is constructed: validating the metadata of the
  field at line 120 raises \<^verbatim>\<open>RecursionError\<close>.
\<close>

theorem explicit_strategy_field_raises:
  "from_xml_loop lib depth (Element ''item'' [] None [])
     [strategy_field ''id'' ''id'' ''attribute'' dflt] (Map.empty, []) = Inl RecursionError \<and>
   from_xml lib depth now [strategy_field ''id'' ''id'' ''attribute'' dflt]
     (Element ''item'' [] None []) = Inl RecursionError"
proof -
  have "from_xml_loop lib depth (Element ''item'' [] None [])
      [strategy_field ''id'' ''id'' ''attribute'' dflt] (Map.empty, []) = Inl RecursionError"
    by (rule from_xml_loop_raises[where d = "[(''xml_lookup_strategy'', PyStr ''attribute'')]"])
      (simp_all add: strategy_field_def)
  then show ?thesis
    by (simp add: from_xml_def)
qed

section \<open>Binding a list of elements\<close>

text \<open>
  C5. When binding one element of the sequence fails, be it in \<^verbatim>\<open>base_cls\<close> or in
  \<^verbatim>\<open>from_xml\<close>, binding the sequence fails: the result is the failure and no list.
\<close>

theorem list_bind_fails_with_element:
  "\<exists>item \<in> set data. \<exists>err. bind_item lib depth now lc item = Inl err
   \<Longrightarrow> \<exists>err. validate_xml lib depth now lc data = Inl err"
proof (induction data)
  case Nil
  then show ?case by simp
next
  case (Cons item data)
  show ?case
  proof (cases "bind_item lib depth now lc item")
    case (Inl err)
    then show ?thesis by simp
  next
    case (Inr r)
    with Cons.prems have "\<exists>x \<in> set data. \<exists>err. bind_item lib depth now lc x = Inl err"
      by auto
    then obtain err where "validate_xml lib depth now lc data = Inl err"
      using Cons.IH by blast
    with Inr show ?thesis by simp
  qed
qed

theorem list_bind_fails_with_element_witness:
  "bind_item example_library 1000 (DatetimeValue 0) (repository_list_class ''BGGNameList'')
     (Element ''name'' [(''type'', ''primary''), (''value'', ''Wingspan'')] None []) =
     Inl (TypeError ''Items schema not found for BGGNameList'') \<and>
   (\<exists>err. validate_xml example_library 1000 (DatetimeValue 0)
      (repository_list_class ''BGGNameList'')
      [Element ''name'' [(''type'', ''primary''), (''value'', ''Wingspan'')] None []] = Inl err)"
proof -
  have failed: "bind_item example_library 1000 (DatetimeValue 0)
      (repository_list_class ''BGGNameList'')
      (Element ''name'' [(''type'', ''primary''), (''value'', ''Wingspan'')] None []) =
    Inl (TypeError ''Items schema not found for BGGNameList'')"
    by (simp add: bind_item_def base_cls_def repository_list_class_def)
  then have "\<exists>item \<in> set [Element ''name'' [(''type'', ''primary''), (''value'', ''Wingspan'')] None []].
      \<exists>err. bind_item example_library 1000 (DatetimeValue 0)
        (repository_list_class ''BGGNameList'') item = Inl err"
    by simp
  from list_bind_fails_with_element[OF this] failed show ?thesis
    by simp
qed

text \<open>
  C6 at a list of one element. The comprehension calls \<^verbatim>\<open>cls.base_cls()\<close> for the first
  item before it binds anything; for a list class of the repository that call raises
  \<^verbatim>\<open>TypeError\<close>, so no non-empty list of elements is ever bound to a list of records;
  the empty list alone is bound, to the empty list.
\<close>

theorem list_bind_raises_type_error:
  "validate_xml lib depth now (repository_list_class ''BGGNameList'') [] = Inr [] \<and>
   validate_xml lib depth now (repository_list_class ''BGGNameList'')
     (Element ''name'' [(''type'', ''primary''), (''value'', ''Wingspan'')] None [] # data) =
   Inl (TypeError ''Items schema not found for BGGNameList'')"
  by (simp add: bind_item_def base_cls_def repository_list_class_def)

section \<open>Binding and the clock\<close>











end
